theory Spec2Isabelle
  imports Complex_Main
begin

section \<open>The linear-algebra substrate\<close>

text \<open>
  \<^verbatim>\<open>using NUM = double;\<close>  The scalar type is read as the real numbers: the theorems below
  are about the exact-arithmetic meaning of the expressions the layers evaluate, not about
  rounding.

  A fixed-size \<^verbatim>\<open>Eigen::Matrix<NUM, d, 1>\<close> is a list of \<open>d\<close> scalars, and a fixed-size
  \<^verbatim>\<open>Eigen::Matrix<NUM, r, c>\<close> is a list of \<open>r\<close> rows, each a list of \<open>c\<close> scalars. The
  widths are template arguments in the source, so a width that does not fit is a compile
  error there; here the predicates \<open>is_vec\<close> and \<open>is_mat\<close> say that a value has the shape
  its C++ type gives it.
\<close>

type_synonym NUM = real
type_synonym vec = "NUM list"
type_synonym mat = "NUM list list"

definition is_vec :: "nat \<Rightarrow> vec \<Rightarrow> bool" where
  "is_vec d v = (length v = d)"

definition is_mat :: "nat \<Rightarrow> nat \<Rightarrow> mat \<Rightarrow> bool" where
  "is_mat r c M = (length M = r \<and> list_all (is_vec c) M)"

text \<open>The inner product of a row with a column, written \<open>\<Sum>k. a_k * c_k\<close>.\<close>

definition dot :: "vec \<Rightarrow> vec \<Rightarrow> NUM" where
  "dot a c = sum_list (map2 (*) a c)"

definition col :: "nat \<Rightarrow> mat \<Rightarrow> vec" where
  "col j M = map (\<lambda>r. r ! j) M"

text \<open>\<^verbatim>\<open>W * x\<close> for a matrix and a column vector.\<close>

definition mat_vec :: "mat \<Rightarrow> vec \<Rightarrow> vec" where
  "mat_vec M x = map (\<lambda>r. dot r x) M"

text \<open>\<^verbatim>\<open>u + v\<close> for two vectors of one width.\<close>

definition vec_add :: "vec \<Rightarrow> vec \<Rightarrow> vec" where
  "vec_add u v = map2 (+) u v"

text \<open>
  \<^verbatim>\<open>A * B\<close> for two matrices. The number of columns of the product is part of its static
  type in the source (\<^verbatim>\<open>Jacobian = Eigen::Matrix<NUM, m, root_dim>\<close>), so it is an
  argument here: the product of an \<open>r \<times> 0\<close> with a \<open>0 \<times> c\<close> matrix is the \<open>r \<times> c\<close> zero
  matrix, which the rows of \<open>B\<close> alone could not tell.
\<close>

definition mat_mul :: "nat \<Rightarrow> mat \<Rightarrow> mat \<Rightarrow> mat" where
  "mat_mul c A B = map (\<lambda>a. map (\<lambda>j. dot a (col j B)) [0..<c]) A"

text \<open>\<^verbatim>\<open>Eigen::Matrix<NUM, r, c>::Ones()\<close>.\<close>

definition Ones :: "nat \<Rightarrow> nat \<Rightarrow> mat" where
  "Ones r c = replicate r (replicate c 1)"

text \<open>\<^verbatim>\<open>v.asDiagonal()\<close>, evaluated into a dense square matrix.\<close>

definition asDiagonal :: "vec \<Rightarrow> mat" where
  "asDiagonal v =
     map (\<lambda>i. map (\<lambda>j. if i = j then v ! i else 0) [0..<length v]) [0..<length v]"

text \<open>\<^verbatim>\<open>Eigen::Matrix<NUM, n, n>::Identity()\<close>, for stating what a derivative is equal to.\<close>

definition Identity :: "nat \<Rightarrow> mat" where
  "Identity n = map (\<lambda>i. map (\<lambda>j. if i = j then 1 else 0) [0..<n]) [0..<n]"

section \<open>The three layer kinds\<close>

subsection \<open>LinearBase\<close>

text \<open>
  The data members \<^verbatim>\<open>W_\<close>, \<^verbatim>\<open>b_\<close> and \<^verbatim>\<open>x_\<close> are written \<open>W_mem\<close>, \<open>b_mem\<close> and
  \<open>x_mem\<close>: a name cannot end in an underscore here.
\<close>

record LinearBase =
  W_mem :: mat
  b_mem :: vec

text \<open>\<^verbatim>\<open>return W_ * x + b_;\<close>  The body assigns nothing.\<close>

definition LinearBase_forward :: "vec \<Rightarrow> LinearBase \<Rightarrow> vec" where
  "LinearBase_forward x this = vec_add (mat_vec (W_mem this) x) (b_mem this)"

text \<open>\<^verbatim>\<open>W_ = W; b_ = b;\<close>\<close>

definition setWeights :: "mat \<Rightarrow> vec \<Rightarrow> LinearBase \<Rightarrow> LinearBase" where
  "setWeights W b this = (this\<lparr>W_mem := W\<rparr>)\<lparr>b_mem := b\<rparr>"

text \<open>
  \<^verbatim>\<open>Linear<n, m, Layer>::backward\<close>: \<^verbatim>\<open>return this->W_ * parent_.backward();\<close>  The argument
  \<open>P\<close> is the value of \<^verbatim>\<open>parent_.backward()\<close> and \<open>rd\<close> is \<^verbatim>\<open>root_dim\<close>.
\<close>

definition Linear_backward :: "nat \<Rightarrow> LinearBase \<Rightarrow> mat \<Rightarrow> mat" where
  "Linear_backward rd this P = mat_mul rd (W_mem this) P"

text \<open>\<^verbatim>\<open>Linear<n, m, void>::backward\<close>: \<^verbatim>\<open>return this->W_;\<close>\<close>

definition Linear_root_backward :: "LinearBase \<Rightarrow> mat" where
  "Linear_root_backward this = W_mem this"

subsection \<open>TanhBase\<close>

record TanhBase =
  x_mem :: vec

text \<open>\<^verbatim>\<open>x_ = x; return x_.array().tanh();\<close>  The result and the object after the call.\<close>

definition TanhBase_forward :: "vec \<Rightarrow> TanhBase \<Rightarrow> vec \<times> TanhBase" where
  "TanhBase_forward x this = (let this' = this\<lparr>x_mem := x\<rparr> in (map tanh (x_mem this'), this'))"

text \<open>
  \<^verbatim>\<open>(1 - this->x_.array().tanh().pow(2)).matrix().asDiagonal()\<close>, the expression both
  \<^verbatim>\<open>backward\<close> members of \<^verbatim>\<open>Tanh\<close> build.
\<close>

definition Tanh_derivative :: "TanhBase \<Rightarrow> mat" where
  "Tanh_derivative this = asDiagonal (map (\<lambda>t. 1 - (tanh t)\<^sup>2) (x_mem this))"

text \<open>\<^verbatim>\<open>Tanh<n, Layer>::backward\<close>: \<^verbatim>\<open>return tmp * parent_.backward();\<close>\<close>

definition Tanh_backward :: "nat \<Rightarrow> TanhBase \<Rightarrow> mat \<Rightarrow> mat" where
  "Tanh_backward rd this P = mat_mul rd (Tanh_derivative this) P"

text \<open>\<^verbatim>\<open>Tanh<n, void>::backward\<close>.\<close>

definition Tanh_root_backward :: "TanhBase \<Rightarrow> mat" where
  "Tanh_root_backward this = Tanh_derivative this"

subsection \<open>SumBase\<close>

text \<open>
  \<^verbatim>\<open>SumBase<n>\<close> has no data member: an object of it is its template argument and nothing
  more. \<^verbatim>\<open>forward\<close> is \<^verbatim>\<open>return x.sum();\<close> and returns a scalar.
\<close>

definition SumBase_forward :: "vec \<Rightarrow> NUM" where
  "SumBase_forward x = sum_list x"

text \<open>\<^verbatim>\<open>Sum<n, Layer>::backward\<close>: \<^verbatim>\<open>return Eigen::Matrix<NUM, 1, n>::Ones() * parent_.backward();\<close>\<close>

definition Sum_backward :: "nat \<Rightarrow> nat \<Rightarrow> mat \<Rightarrow> mat" where
  "Sum_backward n rd P = mat_mul rd (Ones 1 n) P"

text \<open>\<^verbatim>\<open>Sum<n, void>::backward\<close>: \<^verbatim>\<open>return Jacobian::Ones();\<close> with \<open>Jacobian\<close> of shape \<open>1 \<times> n\<close>.\<close>

definition Sum_root_backward :: "nat \<Rightarrow> mat" where
  "Sum_root_backward n = Ones 1 n"

section \<open>Chains of layers\<close>

text \<open>
  An object of one of the three class templates, with its template arguments: the input
  width \<open>n\<close> (and the output width \<open>m\<close> of \<^verbatim>\<open>Linear\<close>) and the data members of its base
  class. The widths are non-negative.
\<close>

datatype base =
    Linear nat nat LinearBase
  | Tanh nat TanhBase
  | Sum nat

text \<open>
  Every class template has two specialisations. \<open>Root b\<close> is the one with
  \<^verbatim>\<open>Layer = void\<close>. \<open>Chained b p\<close> is the one with a parent: \<open>p\<close> is the object that the
  reference \<^verbatim>\<open>parent_\<close> names, in the state it has when it is looked at. The parent is
  reached through that reference only, so a chain is the tail object together with its
  ancestors, and a call on an ancestor changes the \<open>p\<close> inside.
\<close>

datatype layer =
    Root base
  | Chained base layer

fun in_dim :: "base \<Rightarrow> nat" where
  "in_dim (Linear n m l) = n"
| "in_dim (Tanh n t) = n"
| "in_dim (Sum n) = n"

text \<open>
  \<^verbatim>\<open>out_dim\<close> is \<open>m\<close> in \<^verbatim>\<open>LinearBase\<close> and \<open>n\<close> in \<^verbatim>\<open>TanhBase\<close>. \<^verbatim>\<open>SumBase\<close> declares none;
  the number of rows of its \<^verbatim>\<open>Jacobian\<close> type is \<open>1\<close>.
\<close>

fun out_dim :: "base \<Rightarrow> nat" where
  "out_dim (Linear n m l) = m"
| "out_dim (Tanh n t) = n"
| "out_dim (Sum n) = 1"

fun base_of :: "layer \<Rightarrow> base" where
  "base_of (Root b) = b"
| "base_of (Chained b p) = b"

text \<open>
  \<^verbatim>\<open>static constexpr int root_dim = n;\<close> in a root specialisation and
  \<^verbatim>\<open>static constexpr int root_dim = Layer::root_dim;\<close> in a chained one.
\<close>

fun root_dim :: "layer \<Rightarrow> nat" where
  "root_dim (Root b) = in_dim b"
| "root_dim (Chained b p) = root_dim p"

text \<open>The six \<^verbatim>\<open>backward\<close> members, one equation each.\<close>

fun backward :: "layer \<Rightarrow> mat" where
  "backward (Root (Linear n m l)) = Linear_root_backward l"
| "backward (Root (Tanh n t)) = Tanh_root_backward t"
| "backward (Root (Sum n)) = Sum_root_backward n"
| "backward (Chained (Linear n m l) p) = Linear_backward (root_dim p) l (backward p)"
| "backward (Chained (Tanh n t) p) = Tanh_backward (root_dim p) t (backward p)"
| "backward (Chained (Sum n) p) = Sum_backward n (root_dim p) (backward p)"

text \<open>
  \<^verbatim>\<open>forward\<close> on one object: the value returned and the object after the call. No
  \<^verbatim>\<open>forward\<close> calls the parent. The scalar that \<^verbatim>\<open>SumBase::forward\<close> returns is carried as
  a vector of width one, so that every kind has one result type.
\<close>

fun forward_base :: "vec \<Rightarrow> base \<Rightarrow> vec \<times> base" where
  "forward_base x (Linear n m l) = (LinearBase_forward x l, Linear n m l)"
| "forward_base x (Tanh n t) = (let (y, t') = TanhBase_forward x t in (y, Tanh n t'))"
| "forward_base x (Sum n) = ([SumBase_forward x], Sum n)"

fun forward :: "vec \<Rightarrow> layer \<Rightarrow> vec \<times> layer" where
  "forward x (Root b) = (let (y, b') = forward_base x b in (y, Root b'))"
| "forward x (Chained b p) = (let (y, b') = forward_base x b in (y, Chained b' p))"

text \<open>
  The forward pass over the whole chain, root first, as \<^verbatim>\<open>NN::forward\<close> makes it:
  \<^verbatim>\<open>return l3(l2(l1(l0(x))));\<close>
\<close>

fun forward_chain :: "vec \<Rightarrow> layer \<Rightarrow> vec \<times> layer" where
  "forward_chain x (Root b) = (let (y, b') = forward_base x b in (y, Root b'))"
| "forward_chain x (Chained b p) =
     (let (z, p') = forward_chain x p;
          (y, b') = forward_base z b
      in (y, Chained b' p'))"

text \<open>All the objects of a chain, the tail first and the root last.\<close>

fun chain :: "layer \<Rightarrow> layer list" where
  "chain (Root b) = [Root b]"
| "chain (Chained b p) = Chained b p # chain p"

section \<open>Calls and what they leave behind\<close>

text \<open>
  \<^verbatim>\<open>setWeights\<close> is a member of \<^verbatim>\<open>LinearBase\<close> only. On an object of another kind the
  call does not compile, which is \<open>None\<close> here.
\<close>

fun Linear_setWeights :: "mat \<Rightarrow> vec \<Rightarrow> layer \<Rightarrow> layer option" where
  "Linear_setWeights W b (Root (Linear n m l)) = Some (Root (Linear n m (setWeights W b l)))"
| "Linear_setWeights W b (Chained (Linear n m l) p) =
     Some (Chained (Linear n m (setWeights W b l)) p)"
| "Linear_setWeights W b (Root (Tanh n t)) = None"
| "Linear_setWeights W b (Root (Sum n)) = None"
| "Linear_setWeights W b (Chained (Tanh n t) p) = None"
| "Linear_setWeights W b (Chained (Sum n) p) = None"

text \<open>
  The calls a host makes on the tail object of a chain between two \<^verbatim>\<open>setWeights\<close>, and
  the chain each leaves behind. No \<^verbatim>\<open>backward\<close> member assigns to a data member, and the
  only call it makes is the parent's \<^verbatim>\<open>backward\<close>: the chain after it is the chain before
  it.
\<close>

datatype call = Forward vec | ForwardChain vec | Backward

fun exec :: "call \<Rightarrow> layer \<Rightarrow> layer" where
  "exec (Forward x) l = snd (forward x l)"
| "exec (ForwardChain x) l = snd (forward_chain x l)"
| "exec Backward l = l"

text \<open>The parameters an object holds, when it is of the kind that has them.\<close>

fun params :: "layer \<Rightarrow> (mat \<times> vec) option" where
  "params (Root (Linear n m l)) = Some (W_mem l, b_mem l)"
| "params (Chained (Linear n m l) p) = Some (W_mem l, b_mem l)"
| "params (Root (Tanh n t)) = None"
| "params (Root (Sum n)) = None"
| "params (Chained (Tanh n t) p) = None"
| "params (Chained (Sum n) p) = None"

text \<open>
  How a call of \<^verbatim>\<open>backward\<close> ends. The source has no \<^verbatim>\<open>throw\<close>, no assertion and no error
  return in any member (its second \<^verbatim>\<open>TODO\<close> asks whether there should be one): the call
  returns its matrix, whatever was called before. The error is the one the specification
  names, so that returning and raising can be told apart.
\<close>

datatype error = UninitializedState

definition invoke_backward :: "layer \<Rightarrow> error + mat" where
  "invoke_backward l = Inr (backward l)"

section \<open>Shapes\<close>

text \<open>
  The shapes that the C++ types give to the data members, and the agreement of widths
  that the product in a chained \<^verbatim>\<open>backward\<close> needs to compile: the input width of a
  chained layer is the number of rows of its parent's Jacobian.
\<close>

fun wf_base :: "base \<Rightarrow> bool" where
  "wf_base (Linear n m l) = (is_mat m n (W_mem l) \<and> is_vec m (b_mem l))"
| "wf_base (Tanh n t) = is_vec n (x_mem t)"
| "wf_base (Sum n) = True"

fun wf :: "layer \<Rightarrow> bool" where
  "wf (Root b) = wf_base b"
| "wf (Chained b p) = (wf_base b \<and> in_dim b = out_dim (base_of p) \<and> wf p)"

fun root_of :: "layer \<Rightarrow> base" where
  "root_of (Root b) = b"
| "root_of (Chained b p) = root_of p"

section \<open>The chain rule, as the specification words it\<close>

text \<open>
  The local derivative of one layer, read off the object: the weight matrix, the diagonal
  of \<open>1 - tanh\<^sup>2\<close> at the cached input, the row of ones.
\<close>

fun local_derivative :: "base \<Rightarrow> mat" where
  "local_derivative (Linear n m l) = W_mem l"
| "local_derivative (Tanh n t) = asDiagonal (map (\<lambda>u. 1 - (tanh u)\<^sup>2) (x_mem t))"
| "local_derivative (Sum n) = Ones 1 n"

text \<open>
  The Jacobian of one layer's map at an input \<open>z\<close> of that layer, and the list of them
  along a chain for the input \<open>x\<close> of the root, the tail first: every layer at the value
  that the layers before it make of \<open>x\<close>.
\<close>

fun jacobian_at :: "base \<Rightarrow> vec \<Rightarrow> mat" where
  "jacobian_at (Linear n m l) z = W_mem l"
| "jacobian_at (Tanh n t) z = asDiagonal (map (\<lambda>u. 1 - (tanh u)\<^sup>2) z)"
| "jacobian_at (Sum n) z = Ones 1 n"

fun locals :: "vec \<Rightarrow> layer \<Rightarrow> mat list" where
  "locals x (Root b) = [jacobian_at b x]"
| "locals x (Chained b p) = jacobian_at b (fst (forward_chain x p)) # locals x p"

text \<open>\<open>L\<^sub>1 \<cdot> (L\<^sub>2 \<cdot> (\<dots> \<cdot> L\<^sub>k))\<close> for the list \<open>[L\<^sub>1, \<dots>, L\<^sub>k]\<close>, at \<open>rd\<close> columns.\<close>

fun chain_product :: "nat \<Rightarrow> mat list \<Rightarrow> mat" where
  "chain_product rd [] = []"
| "chain_product rd [L] = L"
| "chain_product rd (L # L' # Ls) = mat_mul rd L (chain_product rd (L' # Ls))"

section \<open>Auxiliary facts\<close>

lemma dot_nth: "length a = length c \<Longrightarrow> dot a c = (\<Sum>k<length a. a ! k * c ! k)"
  unfolding dot_def by (simp add: sum_list_sum_nth atLeast0LessThan)

lemma root_dim_forward: "root_dim (snd (forward x l)) = root_dim l"
  by (cases l) (auto split: prod.splits base.splits elim: forward_base.elims)

lemma in_dim_forward_base: "in_dim (snd (forward_base x b)) = in_dim b"
  by (cases b) (auto split: prod.splits)

lemma root_dim_forward_chain: "root_dim (snd (forward_chain x l)) = root_dim l"
proof (induction l)
  case (Root b)
  then show ?case by (simp add: case_prod_beta in_dim_forward_base)
next
  case (Chained b p)
  then show ?case by (simp add: case_prod_beta)
qed

lemma local_forward_base: "local_derivative (snd (forward_base z b)) = jacobian_at b z"
  by (cases b) (simp_all add: TanhBase_forward_def)

lemma backward_Root: "backward (Root b) = local_derivative b"
  by (cases b) (simp_all add: Linear_root_backward_def Tanh_root_backward_def
      Tanh_derivative_def Sum_root_backward_def)

lemma backward_Chained:
  "backward (Chained b p) = mat_mul (root_dim p) (local_derivative b) (backward p)"
  by (cases b) (simp_all add: Linear_backward_def Tanh_backward_def
      Tanh_derivative_def Sum_backward_def)

lemma locals_not_Nil: "locals x l \<noteq> []"
  by (cases l) simp_all

lemma chain_product_Cons:
  "Ls \<noteq> [] \<Longrightarrow> chain_product rd (L # Ls) = mat_mul rd L (chain_product rd Ls)"
  by (cases Ls) simp_all

lemma asDiagonal_replicate:
  "asDiagonal (replicate n c) = map (\<lambda>i. map (\<lambda>j. if i = j then c else 0) [0..<n]) [0..<n]"
  by (simp add: asDiagonal_def)

lemma fold_forward_Linear_Root:
  "fold exec (map Forward xs) (Root (Linear n m l)) = Root (Linear n m l)"
  by (induction xs) simp_all

lemma fold_forward_Linear_Chained:
  "fold exec (map Forward xs) (Chained (Linear n m l) p) = Chained (Linear n m l) p"
  by (induction xs) simp_all

lemma fold_forward_Sum_Root:
  "fold exec (map Forward xs) (Root (Sum n)) = Root (Sum n)"
  by (induction xs) simp_all

lemma fold_forward_Sum_Chained:
  "fold exec (map Forward xs) (Chained (Sum n) p) = Chained (Sum n) p"
  by (induction xs) simp_all

subsection \<open>Shapes of the products\<close>

lemma is_mat_mat_mul: "is_mat (length A) c (mat_mul c A B)"
  by (simp add: is_mat_def is_vec_def mat_mul_def list_all_length)

lemma is_mat_asDiagonal: "is_mat (length v) (length v) (asDiagonal v)"
  by (simp add: is_mat_def is_vec_def asDiagonal_def list_all_length)

lemma is_mat_Ones: "is_mat r c (Ones r c)"
  by (simp add: is_mat_def is_vec_def Ones_def list_all_length)

lemma length_local_derivative: "wf_base b \<Longrightarrow> length (local_derivative b) = out_dim b"
  by (cases b) (simp_all add: is_mat_def is_vec_def asDiagonal_def Ones_def)

lemma is_mat_local_derivative:
  assumes "wf_base b"
  shows "is_mat (out_dim b) (in_dim b) (local_derivative b)"
proof (cases b)
  case (Linear n m l)
  then show ?thesis using assms by simp
next
  case (Tanh n t)
  then show ?thesis using assms is_mat_asDiagonal [of "map (\<lambda>u. 1 - (tanh u)\<^sup>2) (x_mem t)"]
    by (simp add: is_vec_def)
next
  case (Sum n)
  then show ?thesis by (simp add: is_mat_Ones)
qed

lemma backward_shape:
  assumes "wf l"
  shows "is_mat (out_dim (base_of l)) (root_dim l) (backward l)"
proof (cases l)
  case (Root b)
  then show ?thesis using assms by (simp add: backward_Root is_mat_local_derivative)
next
  case (Chained b p)
  from assms have "length (local_derivative b) = out_dim b"
    using Chained by (simp add: length_local_derivative)
  then show ?thesis
    using Chained is_mat_mat_mul [of "local_derivative b" "root_dim p" "backward p"]
    by (simp add: backward_Chained)
qed

lemma chain_root_dim: "a \<in> set (chain l) \<Longrightarrow> root_dim a = root_dim l"
  by (induction l) auto

lemma chain_wf: "wf l \<Longrightarrow> a \<in> set (chain l) \<Longrightarrow> wf a"
  by (induction l) auto

lemma root_dim_root_of: "root_dim l = in_dim (root_of l)"
  by (induction l) simp_all

lemma root_dim_exec: "root_dim (exec c l) = root_dim l"
  by (cases c) (simp_all add: root_dim_forward root_dim_forward_chain)

lemma root_dim_fold_exec: "root_dim (fold exec cs l) = root_dim l"
  by (induction cs arbitrary: l) (simp_all add: root_dim_exec)

lemma root_dim_setWeights: "Linear_setWeights W b l = Some l' \<Longrightarrow> root_dim l' = root_dim l"
  by (induction W b l rule: Linear_setWeights.induct) auto

subsection \<open>Parameters are not written by a call\<close>

lemma params_forward: "params (snd (forward x l)) = params l"
  by (induction l rule: params.induct) (simp_all add: case_prod_beta)

lemma params_forward_chain: "params (snd (forward_chain x l)) = params l"
  by (induction l rule: params.induct) (simp_all add: case_prod_beta)

lemma params_exec: "params (exec c l) = params l"
  by (cases c) (simp_all add: params_forward params_forward_chain)

lemma chain_params_forward: "map params (chain (snd (forward x l))) = map params (chain l)"
  by (induction l rule: params.induct) (simp_all add: case_prod_beta)

lemma chain_params_forward_chain:
  "map params (chain (snd (forward_chain x l))) = map params (chain l)"
proof (induction l arbitrary: x)
  case (Root b)
  then show ?case by (cases b) (simp_all add: case_prod_beta)
next
  case (Chained b p)
  then show ?case by (cases b) (simp_all add: case_prod_beta)
qed

lemma chain_params_exec: "map params (chain (exec c l)) = map params (chain l)"
  by (cases c) (simp_all add: chain_params_forward chain_params_forward_chain)

lemma chain_params_fold_exec: "map params (chain (fold exec cs l)) = map params (chain l)"
  by (induction cs arbitrary: l) (simp_all add: chain_params_exec)

lemma params_fold_exec: "params (fold exec cs l) = params l"
  by (induction cs arbitrary: l) (simp_all add: params_exec)

lemma params_setWeights: "Linear_setWeights W b l = Some l' \<Longrightarrow> params l' = Some (W, b)"
  by (induction W b l rule: Linear_setWeights.induct) (auto simp: setWeights_def)

text \<open>
  Scenario B of the specification, run on the model: the identity weights, then
  \<^verbatim>\<open>Tanh\<close>, at the input \<open>[0, 0]\<close>.
\<close>

lemma scenario_B:
  "forward_chain [0, 0] (Chained (Tanh 2 \<lparr>x_mem = [7, 7]\<rparr>)
       (Root (Linear 2 2 \<lparr>W_mem = [[1, 0], [0, 1]], b_mem = [0, 0]\<rparr>)))
     = ([0, 0], Chained (Tanh 2 \<lparr>x_mem = [0, 0]\<rparr>)
       (Root (Linear 2 2 \<lparr>W_mem = [[1, 0], [0, 1]], b_mem = [0, 0]\<rparr>)))
   \<and> backward (Chained (Tanh 2 \<lparr>x_mem = [0, 0]\<rparr>)
       (Root (Linear 2 2 \<lparr>W_mem = [[1, 0], [0, 1]], b_mem = [0, 0]\<rparr>)))
     = [[1, 0], [0, 1]]"
  by (simp add: LinearBase_forward_def TanhBase_forward_def vec_add_def mat_vec_def dot_def
      Tanh_backward_def Tanh_derivative_def asDiagonal_def mat_mul_def col_def
      Linear_root_backward_def upt_conv_Cons)

section \<open>The claims\<close>

text \<open>
  C1. For a chain on which the forward pass has been made from the root to the tail on an
  input \<open>x\<close>, \<^verbatim>\<open>backward()\<close> on the tail returns the product of the layers' local
  derivatives in the order tail to root, \<open>L_tail \<cdot> (\<dots> \<cdot> L_root)\<close>, each local derivative
  taken at the value its layer received in that pass. The \<^verbatim>\<open>backward\<close> of a root layer is
  its local derivative alone, and the \<^verbatim>\<open>backward\<close> of a chained layer is its local
  derivative multiplied from the left into its parent's \<^verbatim>\<open>backward\<close>.
\<close>

theorem backward_is_chain_product:
  "backward (snd (forward_chain x l)) = chain_product (root_dim l) (locals x l)
   \<and> backward (Root b) = local_derivative b
   \<and> backward (Chained b p) = mat_mul (root_dim p) (local_derivative b) (backward p)"
proof -
  have "backward (snd (forward_chain x l)) = chain_product (root_dim l) (locals x l)"
  proof (induction l)
    case (Root b)
    show ?case
      by (simp add: backward_Root case_prod_beta local_forward_base)
  next
    case (Chained b p)
    obtain z p' where zp: "forward_chain x p = (z, p')" by (cases "forward_chain x p")
    obtain y b' where yb: "forward_base z b = (y, b')" by (cases "forward_base z b")
    have rd: "root_dim p' = root_dim p"
      using root_dim_forward_chain [of x p] zp by simp
    have loc: "local_derivative b' = jacobian_at b z"
      using local_forward_base [of z b] yb by simp
    have "backward (snd (forward_chain x (Chained b p))) = backward (Chained b' p')"
      using zp yb by simp
    also have "\<dots> = mat_mul (root_dim p) (jacobian_at b z) (backward p')"
      by (simp add: backward_Chained rd loc)
    also have "\<dots> = mat_mul (root_dim p) (jacobian_at b z) (chain_product (root_dim p) (locals x p))"
      using Chained.IH zp by simp
    also have "\<dots> = chain_product (root_dim (Chained b p)) (locals x (Chained b p))"
      using zp by (simp add: chain_product_Cons locals_not_Nil)
    finally show ?case .
  qed
  then show ?thesis by (simp add: backward_Root backward_Chained)
qed

text \<open>
  C4. For a \<^verbatim>\<open>Linear\<close> layer whose parameters were set to a weight matrix \<open>W\<close> of shape
  \<open>m \<times> n\<close> and a bias \<open>b\<close> of width \<open>m\<close>, and an input \<open>x\<close> of width \<open>n\<close>,
  \<^verbatim>\<open>forward(x)\<close> is \<open>W \<cdot> x + b\<close>: a vector of width \<open>m\<close> whose entry \<open>i\<close> is
  \<open>(\<Sum>j<n. W\<^sub>i\<^sub>j * x\<^sub>j) + b\<^sub>i\<close>. With \<open>W = [[2, 3]]\<close>, \<open>b = [1]\<close> and \<open>x = [1, 1]\<close> it is \<open>[6]\<close>.
\<close>

theorem LinearBase_forward_affine:
  assumes "is_mat m n W" and "is_vec m b" and "is_vec n x"
  shows "LinearBase_forward x (setWeights W b this) = vec_add (mat_vec W x) b
    \<and> is_vec m (LinearBase_forward x (setWeights W b this))
    \<and> (\<forall>i<m. LinearBase_forward x (setWeights W b this) ! i
          = (\<Sum>j<n. W ! i ! j * x ! j) + b ! i)
    \<and> LinearBase_forward [1, 1] (setWeights [[2, 3]] [1] this) = [6]"
proof -
  have eq: "LinearBase_forward x (setWeights W b this) = vec_add (mat_vec W x) b"
    by (simp add: LinearBase_forward_def setWeights_def)
  have len: "is_vec m (vec_add (mat_vec W x) b)"
    using assms by (simp add: vec_add_def mat_vec_def is_mat_def is_vec_def)
  have nth: "vec_add (mat_vec W x) b ! i = (\<Sum>j<n. W ! i ! j * x ! j) + b ! i" if "i < m" for i
  proof -
    have row: "length (W ! i) = n"
      using assms(1) that by (simp add: is_mat_def is_vec_def list_all_length)
    have "vec_add (mat_vec W x) b ! i = dot (W ! i) x + b ! i"
      using assms that by (simp add: vec_add_def mat_vec_def is_mat_def is_vec_def)
    also have "dot (W ! i) x = (\<Sum>j<n. W ! i ! j * x ! j)"
      using dot_nth [of "W ! i" x] row assms(3) by (simp add: is_vec_def)
    finally show ?thesis .
  qed
  have ex: "LinearBase_forward [1, 1] (setWeights [[2, 3]] [1] this) = [6]"
    by (simp add: LinearBase_forward_def setWeights_def vec_add_def mat_vec_def dot_def)
  show ?thesis using eq len nth ex by simp
qed

theorem LinearBase_forward_affine_witness:
  "is_mat 1 2 [[2, 3]] \<and> is_vec 1 [1] \<and> is_vec 2 [1, 1]
   \<and> LinearBase_forward [1, 1] (setWeights [[2, 3]] [1] \<lparr>W_mem = [[0, 0]], b_mem = [0]\<rparr>) ! 0
       = (\<Sum>j<2. [[2, 3]] ! 0 ! j * [1, 1] ! j) + [1] ! 0
   \<and> LinearBase_forward [1, 1] (setWeights [[2, 3]] [1] \<lparr>W_mem = [[0, 0]], b_mem = [0]\<rparr>) = [6]"
proof -
  have h1: "is_mat 1 2 [[2, 3]]" by (simp add: is_mat_def is_vec_def)
  have h2: "is_vec 1 [1]" by (simp add: is_vec_def)
  have h3: "is_vec 2 [1, 1]" by (simp add: is_vec_def)
  note t = LinearBase_forward_affine [OF h1 h2 h3, of "\<lparr>W_mem = [[0, 0]], b_mem = [0]\<rparr>"]
  from t have "\<forall>i<1. LinearBase_forward [1, 1]
        (setWeights [[2, 3]] [1] \<lparr>W_mem = [[0, 0]], b_mem = [0]\<rparr>) ! i
      = (\<Sum>j<2. [[2, 3]] ! i ! j * [1, 1] ! j) + [1] ! i"
    by blast
  then have c: "LinearBase_forward [1, 1]
        (setWeights [[2, 3]] [1] \<lparr>W_mem = [[0, 0]], b_mem = [0]\<rparr>) ! 0
      = (\<Sum>j<2. [[2, 3]] ! 0 ! j * [1, 1] ! j) + [1] ! 0"
    by blast
  from t have d: "LinearBase_forward [1, 1]
        (setWeights [[2, 3]] [1] \<lparr>W_mem = [[0, 0]], b_mem = [0]\<rparr>) = [6]"
    by blast
  show ?thesis using h1 h2 h3 c d by blast
qed

text \<open>
  C2. \<^verbatim>\<open>forward(x)\<close> of a \<^verbatim>\<open>Tanh\<close> layer stores \<open>x\<close> in the data member \<^verbatim>\<open>x_\<close>, over
  whatever was stored there by an earlier call, and the \<^verbatim>\<open>backward()\<close> that follows returns
  \<open>diag(1 - tanh(x)\<^sup>2)\<close> for the root variant and \<open>diag(1 - tanh(x)\<^sup>2) \<cdot> parent.backward()\<close>
  for the chained variant (the parent in the state \<open>p'\<close> it has when \<^verbatim>\<open>backward\<close> is called),
  with \<open>x\<close> the input of the last \<^verbatim>\<open>forward\<close> on that object.
\<close>

theorem Tanh_forward_then_backward:
  "snd (TanhBase_forward x this) = this\<lparr>x_mem := x\<rparr>
   \<and> x_mem (snd (TanhBase_forward x this)) = x
   \<and> snd (TanhBase_forward x (snd (TanhBase_forward x0 this))) = snd (TanhBase_forward x this)
   \<and> backward (snd (forward x (Root (Tanh n t))))
       = asDiagonal (map (\<lambda>u. 1 - (tanh u)\<^sup>2) x)
   \<and> snd (forward x (Chained (Tanh n t) p)) = Chained (Tanh n (t\<lparr>x_mem := x\<rparr>)) p
   \<and> backward (Chained (Tanh n (t\<lparr>x_mem := x\<rparr>)) p')
       = mat_mul (root_dim p') (asDiagonal (map (\<lambda>u. 1 - (tanh u)\<^sup>2) x)) (backward p')"
  by (simp add: TanhBase_forward_def Tanh_root_backward_def Tanh_backward_def
      Tanh_derivative_def)

text \<open>
  C3. \<^verbatim>\<open>backward()\<close> of a \<^verbatim>\<open>Linear\<close> layer with weight matrix \<open>W\<close> returns \<open>W\<close> for the root
  variant and \<open>W \<cdot> parent.backward()\<close> for the chained variant. A \<^verbatim>\<open>forward\<close> call on the
  layer leaves the object as it was, so neither the call nor the value passed to it
  changes what \<^verbatim>\<open>backward\<close> returns, after any number of such calls.
\<close>

theorem Linear_backward_is_W:
  "backward (Root (Linear n m l)) = W_mem l
   \<and> backward (Chained (Linear n m l) p) = mat_mul (root_dim p) (W_mem l) (backward p)
   \<and> backward (Root (Linear n m (setWeights W b l))) = W
   \<and> backward (Chained (Linear n m (setWeights W b l)) p) = mat_mul (root_dim p) W (backward p)
   \<and> snd (forward x (Root (Linear n m l))) = Root (Linear n m l)
   \<and> snd (forward x (Chained (Linear n m l) p)) = Chained (Linear n m l) p
   \<and> backward (fold exec (map Forward xs) (Root (Linear n m l))) = W_mem l
   \<and> backward (fold exec (map Forward xs) (Chained (Linear n m l) p))
       = mat_mul (root_dim p) (W_mem l) (backward p)"
  by (simp add: fold_forward_Linear_Root fold_forward_Linear_Chained
      Linear_root_backward_def Linear_backward_def setWeights_def)

text \<open>
  C5. \<^verbatim>\<open>backward()\<close> of a \<^verbatim>\<open>Sum\<close> layer of input width \<open>n\<close> returns the \<open>1 \<times> n\<close> row of ones
  for the root variant and that row times \<open>parent.backward()\<close> for the chained variant,
  whatever vectors were passed to the layer's \<^verbatim>\<open>forward\<close> before: after \<^verbatim>\<open>forward(x1)\<close> and
  after \<^verbatim>\<open>forward(x2)\<close> it returns the same matrix.
\<close>

theorem Sum_backward_is_ones:
  "backward (Root (Sum n)) = Ones 1 n
   \<and> Ones 1 n = [replicate n 1]
   \<and> backward (Chained (Sum n) p) = mat_mul (root_dim p) (Ones 1 n) (backward p)
   \<and> backward (snd (forward x1 (Root (Sum n)))) = backward (snd (forward x2 (Root (Sum n))))
   \<and> backward (snd (forward x1 (Chained (Sum n) p)))
       = backward (snd (forward x2 (Chained (Sum n) p)))
   \<and> backward (fold exec (map Forward xs) (Root (Sum n))) = Ones 1 n
   \<and> backward (fold exec (map Forward xs) (Chained (Sum n) p))
       = mat_mul (root_dim p) (Ones 1 n) (backward p)"
  by (simp add: fold_forward_Sum_Root fold_forward_Sum_Chained
      Sum_root_backward_def Sum_backward_def Ones_def)

text \<open>
  C6. \<^verbatim>\<open>root_dim\<close> of a root variant is its input width \<open>n\<close>, and of a chained variant its
  parent's \<^verbatim>\<open>root_dim\<close>; so it is the input width of the root for every layer of a chain,
  the same along the chain, and no call (\<^verbatim>\<open>forward\<close>, \<^verbatim>\<open>backward\<close>, \<^verbatim>\<open>setWeights\<close>) changes
  it. In a chain whose members have the shapes of their types, the \<^verbatim>\<open>backward()\<close> of every
  layer has \<^verbatim>\<open>out_dim\<close> rows and \<^verbatim>\<open>root_dim\<close> columns.
\<close>

theorem root_dim_fixed_along_chain:
  "root_dim (Root b) = in_dim b
   \<and> root_dim (Chained b p) = root_dim p
   \<and> root_dim l = in_dim (root_of l)
   \<and> (\<forall>a \<in> set (chain l). root_dim a = root_dim l)
   \<and> root_dim (fold exec cs l) = root_dim l
   \<and> (Linear_setWeights W v l = Some l' \<longrightarrow> root_dim l' = root_dim l)
   \<and> (wf l \<longrightarrow> (\<forall>a \<in> set (chain l). is_mat (out_dim (base_of a)) (root_dim l) (backward a)))"
proof -
  have "is_mat (out_dim (base_of a)) (root_dim l) (backward a)"
    if "wf l" and "a \<in> set (chain l)" for a
    using backward_shape [of a] chain_wf [OF that] chain_root_dim [OF that(2)] by simp
  then show ?thesis
    using root_dim_root_of [of l] chain_root_dim [of _ l] root_dim_fold_exec [of cs l]
      root_dim_setWeights [of W v l l']
    by simp
qed

theorem root_dim_fixed_along_chain_witness:
  "wf (Chained (Sum 2) (Chained (Tanh 2 \<lparr>x_mem = [0, 0]\<rparr>)
         (Root (Linear 2 2 \<lparr>W_mem = [[1, 0], [0, 1]], b_mem = [0, 0]\<rparr>))))
   \<and> is_mat 1 2 (backward (Chained (Sum 2) (Chained (Tanh 2 \<lparr>x_mem = [0, 0]\<rparr>)
         (Root (Linear 2 2 \<lparr>W_mem = [[1, 0], [0, 1]], b_mem = [0, 0]\<rparr>)))))
   \<and> root_dim (Chained (Tanh 2 \<lparr>x_mem = [0, 0]\<rparr>)
         (Root (Linear 2 2 \<lparr>W_mem = [[1, 0], [0, 1]], b_mem = [0, 0]\<rparr>))) = 2"
proof -
  let ?r = "Root (Linear 2 2 \<lparr>W_mem = [[1, 0], [0, 1]], b_mem = [0, 0]\<rparr>)"
  let ?t = "Chained (Tanh 2 \<lparr>x_mem = [0, 0]\<rparr>) ?r"
  let ?s = "Chained (Sum 2) ?t"
  have w: "wf ?s" by (simp add: is_mat_def is_vec_def)
  have m: "?s \<in> set (chain ?s)" and m': "?t \<in> set (chain ?s)" by simp_all
  note t = root_dim_fixed_along_chain [where l = ?s]
  from t w have "\<forall>a \<in> set (chain ?s). is_mat (out_dim (base_of a)) (root_dim ?s) (backward a)"
    by blast
  with m have "is_mat (out_dim (base_of ?s)) (root_dim ?s) (backward ?s)" by blast
  then have a: "is_mat 1 2 (backward ?s)" by simp
  from t have "\<forall>a \<in> set (chain ?s). root_dim a = root_dim ?s" by blast
  with m' have "root_dim ?t = root_dim ?s" by blast
  then have b: "root_dim ?t = 2" by simp
  show ?thesis using w a b by blast
qed

text \<open>
  The claim C7 as it is written, that \<^verbatim>\<open>backward()\<close> on a layer on which \<^verbatim>\<open>forward\<close> has
  never been called raises the error, fails on a root \<^verbatim>\<open>Linear\<close> layer whose weights were
  set to \<open>[[2, 3]]\<close> and \<open>[1]\<close>: the call returns \<open>[[2, 3]]\<close>. On a root \<^verbatim>\<open>Tanh\<close> layer whose
  \<^verbatim>\<open>x_\<close> holds \<open>[0]\<close> from its construction, it returns \<open>[[1]]\<close>, computed from that content.
\<close>

theorem backward_before_forward_counterexample:
  "invoke_backward (Root (Linear 2 1 (setWeights [[2, 3]] [1] \<lparr>W_mem = [[0, 0]], b_mem = [0]\<rparr>)))
     = Inr [[2, 3]]
   \<and> invoke_backward (Root (Linear 2 1 (setWeights [[2, 3]] [1] \<lparr>W_mem = [[0, 0]], b_mem = [0]\<rparr>)))
     \<noteq> Inl UninitializedState
   \<and> invoke_backward (Root (Tanh 1 \<lparr>x_mem = [0]\<rparr>)) = Inr [[1]]"
  by (simp add: invoke_backward_def Linear_root_backward_def setWeights_def
      Tanh_root_backward_def Tanh_derivative_def asDiagonal_def)

text \<open>
  C7, amended. \<^verbatim>\<open>backward()\<close> has no check that \<^verbatim>\<open>forward\<close> has been called and raises no
  error: on any layer, so also on one on which \<^verbatim>\<open>forward\<close> has never been called, it
  returns the matrix computed from the data members as they are. That is \<open>W\<close> for a root
  \<^verbatim>\<open>Linear\<close> layer, the row of ones for a root \<^verbatim>\<open>Sum\<close> layer, \<open>diag(1 - tanh(x_)\<^sup>2)\<close> of
  whatever \<^verbatim>\<open>x_\<close> holds for a root \<^verbatim>\<open>Tanh\<close> layer, and for a chained layer its local
  derivative times \<open>parent.backward()\<close>.
\<close>

theorem backward_never_raises:
  "invoke_backward l = Inr (backward l)
   \<and> invoke_backward l \<noteq> Inl UninitializedState
   \<and> invoke_backward (Root (Linear n m lb)) = Inr (W_mem lb)
   \<and> invoke_backward (Root (Tanh n t)) = Inr (asDiagonal (map (\<lambda>u. 1 - (tanh u)\<^sup>2) (x_mem t)))
   \<and> invoke_backward (Root (Sum n)) = Inr (Ones 1 n)
   \<and> invoke_backward (Chained b p)
       = Inr (mat_mul (root_dim p) (local_derivative b) (backward p))"
  by (simp add: invoke_backward_def Linear_root_backward_def Tanh_root_backward_def
      Tanh_derivative_def Sum_root_backward_def backward_Chained)

text \<open>
  C8. \<^verbatim>\<open>setWeights(W, b)\<close> on a \<^verbatim>\<open>Linear\<close> layer replaces \<^verbatim>\<open>W_\<close> and \<^verbatim>\<open>b_\<close> both and leaves
  the widths and the parent as they were. After it, any sequence of \<^verbatim>\<open>forward\<close> and
  \<^verbatim>\<open>backward\<close> calls on the layer (a forward pass over the whole chain among them) leaves
  the parameters at \<open>W\<close> and \<open>b\<close>; and such calls change the parameters of no layer of the
  chain.
\<close>

theorem setWeights_frame:
  "setWeights W b this = \<lparr>W_mem = W, b_mem = b\<rparr>
   \<and> Linear_setWeights W b (Root (Linear n m l))
       = Some (Root (Linear n m \<lparr>W_mem = W, b_mem = b\<rparr>))
   \<and> Linear_setWeights W b (Chained (Linear n m l) p)
       = Some (Chained (Linear n m \<lparr>W_mem = W, b_mem = b\<rparr>) p)
   \<and> (Linear_setWeights W b l0 = Some l1 \<longrightarrow> params (fold exec cs l1) = Some (W, b))
   \<and> map params (chain (fold exec cs l2)) = map params (chain l2)"
  using params_setWeights [of W b l0 l1]
  by (simp add: setWeights_def params_fold_exec chain_params_fold_exec)

theorem setWeights_frame_witness:
  "Linear_setWeights [[2, 3]] [1] (Root (Linear 2 1 \<lparr>W_mem = [[0, 0]], b_mem = [0]\<rparr>))
     = Some (Root (Linear 2 1 \<lparr>W_mem = [[2, 3]], b_mem = [1]\<rparr>))
   \<and> params (fold exec [Forward [1, 1], Backward, ForwardChain [5, 7]]
        (Root (Linear 2 1 \<lparr>W_mem = [[2, 3]], b_mem = [1]\<rparr>))) = Some ([[2, 3]], [1])"
proof -
  let ?l0 = "Root (Linear 2 1 \<lparr>W_mem = [[0, 0]], b_mem = [0]\<rparr>)"
  let ?l1 = "Root (Linear 2 1 \<lparr>W_mem = [[2, 3]], b_mem = [1]\<rparr>)"
  have h: "Linear_setWeights [[2, 3]] [1] ?l0 = Some ?l1" by (simp add: setWeights_def)
  note t = setWeights_frame [where W = "[[2, 3]]" and b = "[1]" and ?l0.0 = ?l0 and ?l1.0 = ?l1
      and cs = "[Forward [1, 1], Backward, ForwardChain [5, 7]]"]
  from t h have "params (fold exec [Forward [1, 1], Backward, ForwardChain [5, 7]] ?l1)
      = Some ([[2, 3]], [1])"
    by blast
  with h show ?thesis by blast
qed

text \<open>
  C9. When the last \<^verbatim>\<open>forward\<close> of a \<^verbatim>\<open>Tanh\<close> layer of width \<open>n\<close> received the vector of \<open>n\<close>
  zeros, the local derivative matrix that \<^verbatim>\<open>backward\<close> builds is the \<open>n \<times> n\<close> identity
  matrix: the root variant returns it, and the chained variant multiplies it into
  \<open>parent.backward()\<close>.
\<close>

theorem Tanh_derivative_at_zero:
  "Tanh_derivative (snd (TanhBase_forward (replicate n 0) this)) = Identity n
   \<and> backward (snd (forward (replicate n 0) (Root (Tanh n t)))) = Identity n
   \<and> backward (snd (forward (replicate n 0) (Chained (Tanh n t) p)))
       = mat_mul (root_dim p) (Identity n) (backward p)"
  by (simp add: TanhBase_forward_def Tanh_root_backward_def Tanh_backward_def
      Tanh_derivative_def asDiagonal_replicate Identity_def)

text \<open>
  C10. A \<^verbatim>\<open>Sum\<close> layer caches nothing: \<^verbatim>\<open>forward(x)\<close> returns the sum of \<open>x\<close> and leaves the
  object as it was, and \<^verbatim>\<open>backward()\<close> of a root \<^verbatim>\<open>Sum\<close> layer of width \<open>n\<close> is the \<open>1 \<times> n\<close>
  row of ones for every such object, one on which \<^verbatim>\<open>forward\<close> was never called included.
  The \<^verbatim>\<open>backward()\<close> of a \<^verbatim>\<open>Tanh\<close> layer reads the cached input: two root \<^verbatim>\<open>Tanh\<close> objects
  that differ in \<^verbatim>\<open>x_\<close> only return different matrices.
\<close>

theorem Sum_has_no_cache:
  "forward x (Root (Sum n)) = ([sum_list x], Root (Sum n))
   \<and> forward x (Chained (Sum n) p) = ([sum_list x], Chained (Sum n) p)
   \<and> backward (Root (Sum n)) = [replicate n 1]
   \<and> backward (Root (Tanh 1 \<lparr>x_mem = [0]\<rparr>)) \<noteq> backward (Root (Tanh 1 \<lparr>x_mem = [1]\<rparr>))"
  by (simp add: SumBase_forward_def Sum_root_backward_def Ones_def Tanh_root_backward_def
      Tanh_derivative_def asDiagonal_def)

end
